theory Spec2Isabelle
  imports Main
begin

section \<open>JavaScript values used by the two classes\<close>

text \<open>
  Strings are \<^typ>\<open>string\<close>; a character stands for a code unit below 256. The empty
  string is the only falsy string. \<open>String.prototype.trim\<close> strips white space and line
  terminators from both ends; the members of that set below 256 are TAB, LF, VT, FF, CR,
  SPACE and NBSP.
\<close>

definition truthy_string :: "string \<Rightarrow> bool" where
  "truthy_string s = (s \<noteq> [])"

definition isWhiteSpace :: "char \<Rightarrow> bool" where
  "isWhiteSpace c = ((of_char c :: nat) \<in> {9, 10, 11, 12, 13, 32, 160})"

definition trim :: "string \<Rightarrow> string" where
  "trim s = rev (dropWhile isWhiteSpace (rev (dropWhile isWhiteSpace s)))"

section \<open>ConversationConfig (packages/lib/src/classes/ConversationConfig.ts)\<close>

text \<open>The type \<open>boolean | "soft"\<close> of \<open>disableModeration\<close>.\<close>

datatype disableModeration_t = DM_bool bool | DM_soft

text \<open>JavaScript truthiness on that type: \<open>"soft"\<close> is a non-empty string.\<close>

fun truthy_dm :: "disableModeration_t \<Rightarrow> bool" where
  "truthy_dm (DM_bool b) = b"
| "truthy_dm DM_soft = True"

text \<open>
  \<open>ConversationConfigParameters\<close>: every field is optional (\<open>None\<close> is \<open>undefined\<close>).
  Numbers, the logit bias and the stop sequences are only copied, so their types are
  parameters.
\<close>

record ('n, 'l, 's) ConversationConfigParameters =
  p_context :: "string option"
  p_dry :: "bool option"
  p_disableModeration :: "disableModeration_t option"
  p_apiKey :: "string option"
  p_model :: "string option"
  p_stream :: "bool option"
  p_frequency_penalty :: "'n option"
  p_presence_penalty :: "'n option"
  p_max_tokens :: "'n option"
  p_logit_bias :: "'l option"
  p_stop :: "'s option"
  p_temperature :: "'n option"
  p_top_p :: "'n option"
  p_user :: "string option"

text \<open>
  The constants of \<open>config/constants.js\<close>, which the constructor imports. Their values
  are not part of the class, so they are a parameter of the constructor.
\<close>

record constants =
  DEFAULT_CONTEXT :: string
  DEFAULT_DRY :: bool
  DEFAULT_DISABLEMODERATION :: disableModeration_t
  DEFAULT_MODEL :: string
  DEFAULT_STREAM :: bool

text \<open>
  The object. \<open>priv_apiKey\<close>, \<open>priv_context\<close> and \<open>priv_dry\<close> are the private fields
  \<open>_apiKey\<close>, \<open>_context\<close> and \<open>_dry\<close> behind the accessors. \<open>_dry\<close> is read by the
  \<open>apiKey\<close> setter before the constructor has assigned it, so it is an option
  (\<open>None\<close> is \<open>undefined\<close>).
\<close>

record ('n, 'l, 's) ConversationConfig =
  model :: string
  stream :: bool
  frequencyPenalty :: "'n option"
  presencePenalty :: "'n option"
  maxTokens :: "'n option"
  logitBias :: "'l option"
  stop :: "'s option"
  temperature :: "'n option"
  topP :: "'n option"
  user :: "string option"
  priv_apiKey :: string
  disableModeration :: disableModeration_t
  priv_context :: string
  priv_dry :: "bool option"

definition apiKey :: "('n, 'l, 's) ConversationConfig \<Rightarrow> string" where
  "apiKey this = priv_apiKey this"

definition context_cfg :: "('n, 'l, 's) ConversationConfig \<Rightarrow> string" where
  "context_cfg this = priv_context this"

definition dry :: "('n, 'l, 's) ConversationConfig \<Rightarrow> bool option" where
  "dry this = priv_dry this"

text \<open>
  \<open>set dry(dry)\<close>: store the value, then force \<open>true\<close> when both the value and the
  credential are falsy (the warning on the console is not modelled).
\<close>

definition set_dry ::
  "('n, 'l, 's) ConversationConfig \<Rightarrow> bool \<Rightarrow> ('n, 'l, 's) ConversationConfig" where
  "set_dry this d =
     (let this1 = this\<lparr>priv_dry := Some d\<rparr>
      in if \<not> d \<and> \<not> truthy_string (apiKey this1)
         then this1\<lparr>priv_dry := Some True\<rparr>
         else this1)"

text \<open>\<open>set apiKey(apiKey)\<close>: store the key, then revalidate \<open>dry\<close> when it is defined.\<close>

definition set_apiKey ::
  "('n, 'l, 's) ConversationConfig \<Rightarrow> string \<Rightarrow> ('n, 'l, 's) ConversationConfig" where
  "set_apiKey this k =
     (let this1 = this\<lparr>priv_apiKey := k\<rparr>
      in case dry this1 of
           None \<Rightarrow> this1
         | Some d \<Rightarrow> set_dry this1 d)"

definition set_context ::
  "('n, 'l, 's) ConversationConfig \<Rightarrow> string \<Rightarrow> ('n, 'l, 's) ConversationConfig" where
  "set_context this c = this\<lparr>priv_context := trim c\<rparr>"

text \<open>
  The constructor. Defaults are filled in by destructuring; then the body assigns
  \<open>apiKey\<close>, \<open>dry\<close>, \<open>model\<close>, \<open>context\<close> (trimmed before the setter trims it again),
  \<open>disableModeration\<close>, \<open>stream\<close> and the sampling fields, in this order. The three
  accessor-backed fields go through their setters. Before its assignment \<open>_dry\<close> is
  \<open>None\<close>; \<open>_apiKey\<close> and \<open>_context\<close> are not read before theirs, and are written
  \<open>[]\<close> until then.
\<close>

definition ConversationConfig_new ::
  "constants \<Rightarrow> ('n, 'l, 's) ConversationConfigParameters \<Rightarrow> ('n, 'l, 's) ConversationConfig" where
  "ConversationConfig_new K p =
     (let context0 = (case p_context p of None \<Rightarrow> DEFAULT_CONTEXT K | Some c \<Rightarrow> c);
          dry0 = (case p_dry p of None \<Rightarrow> DEFAULT_DRY K | Some d \<Rightarrow> d);
          disableModeration0 =
            (case p_disableModeration p of None \<Rightarrow> DEFAULT_DISABLEMODERATION K | Some m \<Rightarrow> m);
          apiKey0 = (case p_apiKey p of None \<Rightarrow> [] | Some k \<Rightarrow> k);
          model0 = (case p_model p of None \<Rightarrow> DEFAULT_MODEL K | Some m \<Rightarrow> m);
          stream0 = (case p_stream p of None \<Rightarrow> DEFAULT_STREAM K | Some s \<Rightarrow> s);
          this0 = \<lparr> model = model0, stream = stream0,
                    frequencyPenalty = p_frequency_penalty p,
                    presencePenalty = p_presence_penalty p,
                    maxTokens = p_max_tokens p,
                    logitBias = p_logit_bias p,
                    stop = p_stop p,
                    temperature = p_temperature p,
                    topP = p_top_p p,
                    user = p_user p,
                    priv_apiKey = [],
                    disableModeration = disableModeration0,
                    priv_context = [],
                    priv_dry = None \<rparr>;
          this1 = set_apiKey this0 apiKey0;
          this2 = set_dry this1 dry0;
          this3 = set_context this2 (trim context0)
      in this3)"

text \<open>The moderation getters.\<close>

definition isModerationStrict :: "('n, 'l, 's) ConversationConfig \<Rightarrow> bool" where
  "isModerationStrict this =
     (if \<not> truthy_string (apiKey this) then False
      else \<not> truthy_dm (disableModeration this))"

definition isModerationSoft :: "('n, 'l, 's) ConversationConfig \<Rightarrow> bool" where
  "isModerationSoft this =
     (if \<not> truthy_string (apiKey this) then False
      else disableModeration this = DM_soft)"

definition isModerationEnabled :: "('n, 'l, 's) ConversationConfig \<Rightarrow> bool" where
  "isModerationEnabled this = (isModerationStrict this \<or> isModerationSoft this)"

text \<open>
  Client code changes a configuration through its public setters and the public field
  \<open>disableModeration\<close>. A sequence of such assignments is a list, applied left to right.
\<close>

datatype assignment =
    Assign_apiKey string
  | Assign_dry bool
  | Assign_context string
  | Assign_disableModeration disableModeration_t

fun assign ::
  "('n, 'l, 's) ConversationConfig \<Rightarrow> assignment \<Rightarrow> ('n, 'l, 's) ConversationConfig" where
  "assign this (Assign_apiKey k) = set_apiKey this k"
| "assign this (Assign_dry d) = set_dry this d"
| "assign this (Assign_context c) = set_context this c"
| "assign this (Assign_disableModeration m) = this\<lparr>disableModeration := m\<rparr>"

definition assign_all ::
  "('n, 'l, 's) ConversationConfig \<Rightarrow> assignment list \<Rightarrow> ('n, 'l, 's) ConversationConfig" where
  "assign_all this as = foldl assign this as"

text \<open>A parameter object with every field left out, and constants to build examples with.\<close>

definition no_parameters :: "(int, unit, unit) ConversationConfigParameters" where
  "no_parameters =
     \<lparr> p_context = None, p_dry = None, p_disableModeration = None, p_apiKey = None,
       p_model = None, p_stream = None, p_frequency_penalty = None,
       p_presence_penalty = None, p_max_tokens = None, p_logit_bias = None,
       p_stop = None, p_temperature = None, p_top_p = None, p_user = None \<rparr>"

definition example_constants :: constants where
  "example_constants =
     \<lparr> DEFAULT_CONTEXT = ''Answer as concisely as possible.'',
       DEFAULT_DRY = False,
       DEFAULT_DISABLEMODERATION = DM_bool False,
       DEFAULT_MODEL = ''gpt-3.5-turbo'',
       DEFAULT_STREAM = False \<rparr>"

text \<open>Predicates for the properties of the configuration.\<close>

definition noLeadingWhiteSpace :: "string \<Rightarrow> bool" where
  "noLeadingWhiteSpace s = (case s of [] \<Rightarrow> True | c # _ \<Rightarrow> \<not> isWhiteSpace c)"

definition noTrailingWhiteSpace :: "string \<Rightarrow> bool" where
  "noTrailingWhiteSpace s = noLeadingWhiteSpace (rev s)"

definition dry_valid :: "('n, 'l, 's) ConversationConfig \<Rightarrow> bool" where
  "dry_valid this = (dry this \<noteq> None \<and> (apiKey this = [] \<longrightarrow> dry this = Some True))"

definition context_trimmed :: "('n, 'l, 's) ConversationConfig \<Rightarrow> bool" where
  "context_trimmed this =
     (noLeadingWhiteSpace (context_cfg this) \<and> noTrailingWhiteSpace (context_cfg this))"

section \<open>Messages, the history and the collaborators of a Conversation\<close>

datatype message_role = System | User | Assistant | Function

text \<open>
  A message: \<open>mid\<close> is its \<open>id\<close>. \<open>content\<close> is nullable (\<open>reprompt\<close> reads it with
  \<open>?? ""\<close>), \<open>name\<close> is present on function messages.
\<close>

record message =
  mid :: string
  role :: message_role
  content :: "string option"
  name :: "string option"
  flags :: "string list"

text \<open>
  The mutable state a turn works on: the ordered history, and (as the record's
  extension) whatever else the plugins and the remote services read and write.
\<close>

record conversation =
  history :: "message list"

text \<open>
  What a \<open>throw\<close> carries: the \<open>Error\<close> objects \<open>reprompt\<close> creates, with their
  message, or any value raised by a collaborator.
\<close>

datatype 'e thrown = Error string | Raised 'e

text \<open>
  The argument \<open>result\<close> of \<open>functionPrompt\<close> can be anything; the code only asks
  whether \<open>typeof\<close> gives \<open>"string"\<close>.
\<close>

datatype 'v js_value = JsString string | JsOther 'v

text \<open>
  The collaborators \<open>prompt\<close>, \<open>reprompt\<close> and \<open>functionPrompt\<close> call: the hooks of the
  plugin service, the two operations of the chat completion service, and
  \<open>JSON.stringify\<close>. Their code is outside \<open>Conversation.ts\<close>, so they are parameters:
  an awaited call takes the state and gives the state it leaves together with either
  the value it resolves to (\<open>Inr\<close>) or what it throws (\<open>Inl\<close>). They may change the
  state in any way, also when they throw. \<open>'o\<close> is the pair of \<open>options\<close> and
  \<open>requestOptions\<close>, which is only handed on. \<open>JSON.stringify\<close> gives \<open>undefined\<close>
  (\<open>None\<close>) for some values and throws for others. One turn runs at a time: whatever
  happens to the state during an \<open>await\<close> is part of the awaited collaborator.
  \<open>onUserPromptError\<close> and \<open>onFunctionPromptError\<close> are the error hooks of the plugins,
  which may throw like any other hook; the plugin service's dispatch of them follows
  below.
\<close>

record ('e, 'v, 'o, 'x) services =
  onUserPrompt ::
    "message \<Rightarrow> 'x conversation_scheme \<Rightarrow> ('e thrown + unit) \<times> 'x conversation_scheme"
  onUserPromptError ::
    "'e thrown \<Rightarrow> 'x conversation_scheme \<Rightarrow> ('e thrown + unit) \<times> 'x conversation_scheme"
  onFunctionPrompt ::
    "message \<Rightarrow> 'x conversation_scheme \<Rightarrow> ('e thrown + unit) \<times> 'x conversation_scheme"
  onFunctionPromptError ::
    "'e thrown \<Rightarrow> 'x conversation_scheme \<Rightarrow> ('e thrown + unit) \<times> 'x conversation_scheme"
  transformFunctionResult ::
    "'v js_value \<Rightarrow> 'x conversation_scheme \<Rightarrow>
       ('e thrown + 'v js_value) \<times> 'x conversation_scheme"
  moderateMessage ::
    "message \<Rightarrow> 'x conversation_scheme \<Rightarrow> ('e thrown + unit) \<times> 'x conversation_scheme"
  getAssistantResponse ::
    "'o \<Rightarrow> 'x conversation_scheme \<Rightarrow> ('e thrown + message) \<times> 'x conversation_scheme"
  JSON_stringify :: "'v \<Rightarrow> 'e thrown + string option"

subsection \<open>ConversationHistory\<close>

text \<open>
  Modelled from the spec: \<open>ConversationHistory\<close> (\<open>getMessages\<close>, \<open>addUserMessage\<close>,
  \<open>addFunctionMessage\<close>, \<open>removeMessage\<close>), whose file is not among the sources.
  \<open>getMessages\<close> gives the ordered sequence; \<open>addUserMessage\<close> appends a message with
  role user and \<open>addFunctionMessage\<close> one with role function and the given name;
  \<open>removeMessage\<close> removes by id and does nothing when the id is absent. The id of a
  new message is generated (a UUID); here it is the argument \<open>newId\<close>. The spec leaves
  open whether an empty prompt is rejected and records that the source accepts it, so
  both additions are total; they run before the \<open>try\<close> block in either case.
\<close>

definition getMessages :: "'x conversation_scheme \<Rightarrow> message list" where
  "getMessages this = history this"

definition userMessage :: "string \<Rightarrow> string \<Rightarrow> message" where
  "userMessage text newId =
     \<lparr> mid = newId, role = User, content = Some text, name = None, flags = [] \<rparr>"

definition functionMessage :: "string option \<Rightarrow> string \<Rightarrow> string \<Rightarrow> message" where
  "functionMessage c n newId =
     \<lparr> mid = newId, role = Function, content = c, name = Some n, flags = [] \<rparr>"

definition addUserMessage ::
  "'x conversation_scheme \<Rightarrow> string \<Rightarrow> string \<Rightarrow> message \<times> 'x conversation_scheme" where
  "addUserMessage this text newId =
     (userMessage text newId, this\<lparr>history := history this @ [userMessage text newId]\<rparr>)"

definition addFunctionMessage ::
  "'x conversation_scheme \<Rightarrow> string option \<Rightarrow> string \<Rightarrow> string \<Rightarrow>
     message \<times> 'x conversation_scheme" where
  "addFunctionMessage this c n newId =
     (functionMessage c n newId, this\<lparr>history := history this @ [functionMessage c n newId]\<rparr>)"

definition removeMessage :: "'x conversation_scheme \<Rightarrow> message \<Rightarrow> 'x conversation_scheme" where
  "removeMessage this m = this\<lparr>history := filter (\<lambda>x. mid x \<noteq> mid m) (history this)\<rparr>"

subsection \<open>The plugin service's dispatch of the error hooks\<close>

text \<open>
  Modelled from the spec: \<open>pluginService.onUserPromptError\<close> and
  \<open>pluginService.onFunctionPromptError\<close>, the dispatch of the plugins' error hooks,
  whose file is not among the sources. The plugin service is built by the
  \<open>Conversation\<close> itself from the plugins it is given. Its error hooks fire when a stage
  of the turn has failed, receive the error for logging and cleanup, and may not block
  the rollback: a throw of a plugin's error hook ends the dispatch and is not passed
  on, so the awaited dispatch completes, in the state the hooks left.
\<close>

definition pluginService_onUserPromptError ::
  "('e, 'v, 'o, 'x) services \<Rightarrow> 'e thrown \<Rightarrow> 'x conversation_scheme \<Rightarrow>
     ('e thrown + unit) \<times> 'x conversation_scheme" where
  "pluginService_onUserPromptError S e this =
     (case onUserPromptError S e this of
        (Inl _, this1) \<Rightarrow> (Inr (), this1)
      | (Inr _, this1) \<Rightarrow> (Inr (), this1))"

definition pluginService_onFunctionPromptError ::
  "('e, 'v, 'o, 'x) services \<Rightarrow> 'e thrown \<Rightarrow> 'x conversation_scheme \<Rightarrow>
     ('e thrown + unit) \<times> 'x conversation_scheme" where
  "pluginService_onFunctionPromptError S e this =
     (case onFunctionPromptError S e this of
        (Inl _, this1) \<Rightarrow> (Inr (), this1)
      | (Inr _, this1) \<Rightarrow> (Inr (), this1))"

section \<open>Conversation (packages/lib/src/classes/Conversation.ts)\<close>

subsection \<open>prompt\<close>

text \<open>The \<open>try\<close> block: the hook, the moderation, the completion; the first throw ends it.\<close>

definition prompt_try ::
  "('e, 'v, 'o, 'x) services \<Rightarrow> message \<Rightarrow> 'o \<Rightarrow> 'x conversation_scheme \<Rightarrow>
     ('e thrown + message) \<times> 'x conversation_scheme" where
  "prompt_try S um opts this =
     (case onUserPrompt S um this of
        (Inl e, this1) \<Rightarrow> (Inl e, this1)
      | (Inr _, this1) \<Rightarrow>
          (case moderateMessage S um this1 of
             (Inl e, this2) \<Rightarrow> (Inl e, this2)
           | (Inr _, this2) \<Rightarrow> getAssistantResponse S opts this2))"

text \<open>
  The \<open>catch\<close> block: await the plugin service's \<open>onUserPromptError\<close>, remove the user
  message, rethrow. The block has no guard of its own: were the awaited dispatch to
  throw, that throw would leave the block at once.
\<close>

definition prompt_catch ::
  "('e, 'v, 'o, 'x) services \<Rightarrow> message \<Rightarrow> 'e thrown \<Rightarrow> 'x conversation_scheme \<Rightarrow>
     ('e thrown + message) \<times> 'x conversation_scheme" where
  "prompt_catch S um e this =
     (case pluginService_onUserPromptError S e this of
        (Inl e', this1) \<Rightarrow> (Inl e', this1)
      | (Inr _, this1) \<Rightarrow> (Inl e, removeMessage this1 um))"

definition prompt ::
  "('e, 'v, 'o, 'x) services \<Rightarrow> 'x conversation_scheme \<Rightarrow> string \<Rightarrow> 'o \<Rightarrow> string \<Rightarrow>
     ('e thrown + message) \<times> 'x conversation_scheme" where
  "prompt S this text opts newId =
     (case addUserMessage this text newId of
        (um, this0) \<Rightarrow>
          (case prompt_try S um opts this0 of
             (Inr assistantMessage, this1) \<Rightarrow> (Inr assistantMessage, this1)
           | (Inl e, this1) \<Rightarrow> prompt_catch S um e this1))"

subsection \<open>reprompt\<close>

datatype messageOrId = ById string | ByMessage message

fun idOf :: "messageOrId \<Rightarrow> string" where
  "idOf (ById i) = i"
| "idOf (ByMessage m) = mid m"

text \<open>\<open>Array.prototype.findIndex\<close>; \<open>None\<close> is \<open>-1\<close>.\<close>

fun findIndex :: "('a \<Rightarrow> bool) \<Rightarrow> 'a list \<Rightarrow> nat option" where
  "findIndex P [] = None"
| "findIndex P (x # xs) = (if P x then Some 0 else map_option Suc (findIndex P xs))"

text \<open>
  The \<open>while\<close> loop, started at an index inside the list: stop at a message with role
  user; otherwise step down, and leave the loop when the index falls below 0. The
  check after the loop throws exactly when the loop was left that way (\<open>None\<close>).
\<close>

fun previousUserMessageIndex :: "message list \<Rightarrow> nat \<Rightarrow> nat option" where
  "previousUserMessageIndex messages 0 =
     (if role (messages ! 0) = User then Some 0 else None)"
| "previousUserMessageIndex messages (Suc i) =
     (if role (messages ! Suc i) = User then Some (Suc i)
      else previousUserMessageIndex messages i)"

definition notFoundMessage :: "string \<Rightarrow> string" where
  "notFoundMessage i = ''Message with ID '' @ [CHR 0x22] @ i @ [CHR 0x22] @ '' not found.''"

definition noPreviousUserMessage :: "string \<Rightarrow> string" where
  "noPreviousUserMessage i =
     ''Could not find a previous user message to reprompt from ('' @ i @ '').''"

text \<open>
  \<open>reprompt\<close>. The assignment to \<open>previousUserMessage.content\<close> changes an object that
  has just been removed from the history; it is kept as the local \<open>pum\<close>. \<open>newPrompt\<close>
  is optional: the assignment tests its truthiness, the choice of the prompt only
  whether it is \<open>undefined\<close>.
\<close>

definition reprompt ::
  "('e, 'v, 'o, 'x) services \<Rightarrow> 'x conversation_scheme \<Rightarrow> messageOrId \<Rightarrow> string option \<Rightarrow>
     'o \<Rightarrow> string \<Rightarrow> ('e thrown + message) \<times> 'x conversation_scheme" where
  "reprompt S this fromMessageOrId newPrompt opts newId =
     (let i = idOf fromMessageOrId;
          messages = getMessages this
      in case findIndex (\<lambda>m. mid m = i) messages of
           None \<Rightarrow> (Inl (Error (notFoundMessage i)), this)
         | Some fromIndex \<Rightarrow>
             (case previousUserMessageIndex messages fromIndex of
                None \<Rightarrow> (Inl (Error (noPreviousUserMessage i)), this)
              | Some k \<Rightarrow>
                  (let this1 = foldl removeMessage this (drop k messages);
                       pum0 = messages ! k;
                       pum = (case newPrompt of
                                None \<Rightarrow> pum0
                              | Some p \<Rightarrow> if truthy_string p then pum0\<lparr>content := Some p\<rparr> else pum0);
                       text = (case newPrompt of
                                 Some p \<Rightarrow> p
                               | None \<Rightarrow> (case content pum of Some t \<Rightarrow> t | None \<Rightarrow> []))
                   in prompt S this1 text opts newId)))"

subsection \<open>functionPrompt\<close>

text \<open>A string passes unchanged; anything else goes through \<open>JSON.stringify\<close>.\<close>

fun stringifyResult :: "('e, 'v, 'o, 'x) services \<Rightarrow> 'v js_value \<Rightarrow> 'e thrown + string option" where
  "stringifyResult S (JsString s) = Inr (Some s)"
| "stringifyResult S (JsOther v) = JSON_stringify S v"

definition functionPrompt_try ::
  "('e, 'v, 'o, 'x) services \<Rightarrow> message \<Rightarrow> 'o \<Rightarrow> 'x conversation_scheme \<Rightarrow>
     ('e thrown + message) \<times> 'x conversation_scheme" where
  "functionPrompt_try S fm opts this =
     (case onFunctionPrompt S fm this of
        (Inl e, this1) \<Rightarrow> (Inl e, this1)
      | (Inr _, this1) \<Rightarrow>
          (case moderateMessage S fm this1 of
             (Inl e, this2) \<Rightarrow> (Inl e, this2)
           | (Inr _, this2) \<Rightarrow> getAssistantResponse S opts this2))"

definition functionPrompt_catch ::
  "('e, 'v, 'o, 'x) services \<Rightarrow> message \<Rightarrow> 'e thrown \<Rightarrow> 'x conversation_scheme \<Rightarrow>
     ('e thrown + message) \<times> 'x conversation_scheme" where
  "functionPrompt_catch S fm e this =
     (case pluginService_onFunctionPromptError S e this of
        (Inl e', this1) \<Rightarrow> (Inl e', this1)
      | (Inr _, this1) \<Rightarrow> (Inl e, removeMessage this1 fm))"

text \<open>The \<open>try\<close> statement as a whole, run on the state that holds the new message.\<close>

definition functionPrompt_guarded ::
  "('e, 'v, 'o, 'x) services \<Rightarrow> message \<Rightarrow> 'o \<Rightarrow> 'x conversation_scheme \<Rightarrow>
     ('e thrown + message) \<times> 'x conversation_scheme" where
  "functionPrompt_guarded S fm opts this =
     (case functionPrompt_try S fm opts this of
        (Inr assistantMessage, this1) \<Rightarrow> (Inr assistantMessage, this1)
      | (Inl e, this1) \<Rightarrow> functionPrompt_catch S fm e this1)"

definition functionPrompt ::
  "('e, 'v, 'o, 'x) services \<Rightarrow> 'x conversation_scheme \<Rightarrow> string \<Rightarrow> 'v js_value \<Rightarrow> 'o \<Rightarrow>
     string \<Rightarrow> ('e thrown + message) \<times> 'x conversation_scheme" where
  "functionPrompt S this n result opts newId =
     (case transformFunctionResult S result this of
        (Inl e, this1) \<Rightarrow> (Inl e, this1)
      | (Inr transformedResult, this1) \<Rightarrow>
          (case stringifyResult S transformedResult of
             Inl e \<Rightarrow> (Inl e, this1)
           | Inr c \<Rightarrow>
               (case addFunctionMessage this1 c n newId of
                  (fm, this2) \<Rightarrow> functionPrompt_guarded S fm opts this2)))"

section \<open>Example collaborators and an example history\<close>

text \<open>
  Collaborators for concrete runs: \<open>failing\<close> names the stage that throws (its error is
  \<open>Raised 1\<close> to \<open>Raised 4\<close>), \<open>errorHookFails\<close> makes the plugins' error hooks throw
  \<open>Raised 9\<close>. A completion that succeeds mirrors the last message, as dry mode does.
\<close>

datatype stage = NoStage | Hook | Moderation | Completion | Transform

definition example_reply :: "conversation \<Rightarrow> message" where
  "example_reply this =
     (case rev (history this) of
        [] \<Rightarrow> \<lparr> mid = ''reply'', role = Assistant, content = None, name = None, flags = [] \<rparr>
      | m # _ \<Rightarrow> \<lparr> mid = ''reply-to-'' @ mid m, role = Assistant, content = content m,
                   name = None, flags = [] \<rparr>)"

definition example_services :: "stage \<Rightarrow> bool \<Rightarrow> (nat, bool, unit, unit) services" where
  "example_services failing errorHookFails =
     \<lparr> onUserPrompt = (\<lambda>m this. (if failing = Hook then Inl (Raised 1) else Inr (), this)),
       onUserPromptError = (\<lambda>e this. (if errorHookFails then Inl (Raised 9) else Inr (), this)),
       onFunctionPrompt = (\<lambda>m this. (if failing = Hook then Inl (Raised 1) else Inr (), this)),
       onFunctionPromptError = (\<lambda>e this. (if errorHookFails then Inl (Raised 9) else Inr (), this)),
       transformFunctionResult = (\<lambda>v this. (if failing = Transform then Inl (Raised 4) else Inr v, this)),
       moderateMessage = (\<lambda>m this. (if failing = Moderation then Inl (Raised 2) else Inr (), this)),
       getAssistantResponse = (\<lambda>opts this.
          if failing = Completion then (Inl (Raised 3), this)
          else (Inr (example_reply this), this\<lparr>history := history this @ [example_reply this]\<rparr>)),
       JSON_stringify = (\<lambda>v. Inr (Some (if v then ''true'' else ''false''))) \<rparr>"

definition example_history :: "message list" where
  "example_history =
     [ \<lparr> mid = ''sys'', role = System, content = Some ''Be brief.'', name = None, flags = [] \<rparr>,
       \<lparr> mid = ''user1'', role = User, content = Some ''Hello!'', name = None, flags = [] \<rparr>,
       \<lparr> mid = ''asst1'', role = Assistant, content = Some ''Hi'', name = None, flags = [] \<rparr>,
       \<lparr> mid = ''user2'', role = User, content = Some ''How are you?'', name = None, flags = [] \<rparr>,
       \<lparr> mid = ''asst2'', role = Assistant, content = Some ''Good.'', name = None, flags = [] \<rparr> ]"

definition negating_services :: "(nat, bool, unit, unit) services" where
  "negating_services =
     (example_services NoStage False)
       \<lparr>transformFunctionResult :=
          (\<lambda>v this. (Inr (case v of JsString s \<Rightarrow> JsString s | JsOther b \<Rightarrow> JsOther (\<not> b)), this))\<rparr>"


section \<open>Properties of ConversationConfig\<close>

lemma truthy_dm_iff: "(\<not> truthy_dm m) = (m = DM_bool False)"
  by (cases m) auto

text \<open>
  C3. For every configuration: \<open>isModerationStrict\<close> holds iff the credential is
  non-empty and \<open>disableModeration\<close> is \<open>false\<close>; \<open>isModerationSoft\<close> holds iff the
  credential is non-empty and \<open>disableModeration\<close> is \<open>"soft"\<close>; \<open>isModerationEnabled\<close>
  holds iff one of the two does; and with an empty credential all three are false
  whatever \<open>disableModeration\<close> is.
\<close>

theorem moderation_tristate:
  "isModerationStrict this = (apiKey this \<noteq> [] \<and> disableModeration this = DM_bool False)
   \<and> isModerationSoft this = (apiKey this \<noteq> [] \<and> disableModeration this = DM_soft)
   \<and> isModerationEnabled this = (isModerationStrict this \<or> isModerationSoft this)
   \<and> (apiKey this = [] \<longrightarrow>
        \<not> isModerationStrict this \<and> \<not> isModerationSoft this \<and> \<not> isModerationEnabled this)"
  by (simp add: isModerationStrict_def isModerationSoft_def isModerationEnabled_def
      truthy_string_def truthy_dm_iff)

theorem moderation_tristate_witness:
  "apiKey (ConversationConfig_new example_constants (no_parameters\<lparr>p_disableModeration := Some DM_soft\<rparr>)) = []
   \<and> \<not> isModerationStrict (ConversationConfig_new example_constants (no_parameters\<lparr>p_disableModeration := Some DM_soft\<rparr>))
   \<and> \<not> isModerationSoft (ConversationConfig_new example_constants (no_parameters\<lparr>p_disableModeration := Some DM_soft\<rparr>))
   \<and> \<not> isModerationEnabled (ConversationConfig_new example_constants (no_parameters\<lparr>p_disableModeration := Some DM_soft\<rparr>))"
proof -
  let ?c = "ConversationConfig_new example_constants (no_parameters\<lparr>p_disableModeration := Some DM_soft\<rparr>)"
  have k: "apiKey ?c = []"
    by (simp add: ConversationConfig_new_def no_parameters_def example_constants_def
        set_apiKey_def set_dry_def set_context_def apiKey_def dry_def truthy_string_def Let_def)
  from k moderation_tristate [of ?c] show ?thesis by blast
qed

lemma noLeading_dropWhile: "noLeadingWhiteSpace (dropWhile isWhiteSpace s)"
  by (induction s) (auto simp: noLeadingWhiteSpace_def)

lemma dropWhile_noLeading: "noLeadingWhiteSpace s \<Longrightarrow> dropWhile isWhiteSpace s = s"
  by (cases s) (auto simp: noLeadingWhiteSpace_def)

lemma noLeading_prefix:
  assumes "noLeadingWhiteSpace (r @ u)"
  shows "noLeadingWhiteSpace r"
  using assms by (cases r) (auto simp: noLeadingWhiteSpace_def)

lemma trim_prefix: "\<exists>u. dropWhile isWhiteSpace s = trim s @ u"
proof -
  have "dropWhile isWhiteSpace s =
      trim s @ rev (takeWhile isWhiteSpace (rev (dropWhile isWhiteSpace s)))"
    unfolding trim_def
    by (metis rev_append rev_rev_ident takeWhile_dropWhile_id)
  then show ?thesis ..
qed

lemma noLeading_trim: "noLeadingWhiteSpace (trim s)"
proof -
  obtain u where "dropWhile isWhiteSpace s = trim s @ u"
    using trim_prefix by blast
  with noLeading_dropWhile [of s] show ?thesis
    by (simp add: noLeading_prefix)
qed

lemma noTrailing_trim: "noTrailingWhiteSpace (trim s)"
  by (simp add: noTrailingWhiteSpace_def trim_def noLeading_dropWhile)

lemma trim_trim: "trim (trim s) = trim s"
proof -
  have a: "dropWhile isWhiteSpace (trim s) = trim s"
    by (rule dropWhile_noLeading [OF noLeading_trim])
  have b: "dropWhile isWhiteSpace (rev (trim s)) = rev (trim s)"
    using noTrailing_trim [of s] by (simp add: noTrailingWhiteSpace_def dropWhile_noLeading)
  show ?thesis
    unfolding trim_def [of "trim s"] a b by simp
qed

lemma dry_valid_set_dry: "dry_valid (set_dry this d)"
  by (auto simp: dry_valid_def set_dry_def dry_def apiKey_def truthy_string_def Let_def)

lemma dry_valid_set_apiKey: "dry_valid this \<Longrightarrow> dry_valid (set_apiKey this k)"
  by (auto simp: dry_valid_def set_apiKey_def set_dry_def dry_def apiKey_def
      truthy_string_def Let_def split: option.splits)

lemma dry_valid_set_context: "dry_valid this \<Longrightarrow> dry_valid (set_context this c)"
  by (simp add: dry_valid_def set_context_def dry_def apiKey_def)

lemma dry_valid_assign: "dry_valid this \<Longrightarrow> dry_valid (assign this a)"
  by (cases a) (simp_all add: dry_valid_set_dry dry_valid_set_apiKey dry_valid_set_context,
      simp add: dry_valid_def dry_def apiKey_def)

lemma dry_valid_assign_all: "dry_valid this \<Longrightarrow> dry_valid (assign_all this as)"
  unfolding assign_all_def
  by (induction as arbitrary: this) (simp_all add: dry_valid_assign)

lemma dry_valid_new: "dry_valid (ConversationConfig_new K p)"
  by (simp add: ConversationConfig_new_def Let_def dry_valid_set_context dry_valid_set_dry)

lemma apiKey_new: "apiKey (ConversationConfig_new K p) = (case p_apiKey p of None \<Rightarrow> [] | Some k \<Rightarrow> k)"
  by (simp add: ConversationConfig_new_def Let_def set_context_def set_dry_def set_apiKey_def
      apiKey_def dry_def)

text \<open>
  C4. After construction and after any sequence of assignments (to \<open>apiKey\<close> and \<open>dry\<close>,
  and also to \<open>context\<close> and \<open>disableModeration\<close>), an empty credential means that
  \<open>dry\<close> is \<open>true\<close>, whatever value of \<open>dry\<close> was asked for. In particular a
  configuration constructed without a credential has \<open>dry = true\<close>, with \<open>dry\<close> unset
  or set to either value.
\<close>

theorem dry_forced_without_credential:
  "(apiKey (assign_all (ConversationConfig_new K p) as) = [] \<longrightarrow>
      dry (assign_all (ConversationConfig_new K p) as) = Some True)
   \<and> (p_apiKey p = None \<or> p_apiKey p = Some [] \<longrightarrow>
      dry (ConversationConfig_new K p) = Some True)"
proof -
  have "dry_valid (assign_all (ConversationConfig_new K p) as)"
    by (rule dry_valid_assign_all [OF dry_valid_new])
  moreover have "dry_valid (ConversationConfig_new K p)"
    by (rule dry_valid_new)
  ultimately show ?thesis
    by (auto simp: dry_valid_def apiKey_new)
qed

lemma context_set_context: "context_cfg (set_context this c) = trim c"
  by (simp add: set_context_def context_cfg_def)

lemma context_new:
  "context_cfg (ConversationConfig_new K p) =
     trim (case p_context p of None \<Rightarrow> DEFAULT_CONTEXT K | Some c \<Rightarrow> c)"
  by (simp add: ConversationConfig_new_def Let_def context_set_context trim_trim)

lemma context_trimmed_assign: "context_trimmed this \<Longrightarrow> context_trimmed (assign this a)"
  by (cases a) (auto simp: context_trimmed_def context_cfg_def set_apiKey_def set_dry_def
      set_context_def Let_def noLeading_trim noTrailing_trim split: option.splits)

lemma context_trimmed_assign_all: "context_trimmed this \<Longrightarrow> context_trimmed (assign_all this as)"
  unfolding assign_all_def
  by (induction as arbitrary: this) (simp_all add: context_trimmed_assign)

text \<open>
  C9. The stored context never has leading or trailing white space: after construction
  and after any sequence of assignments. The constructor stores the trimmed value of
  the given (or default) string, and every assignment to \<open>context\<close> stores the trimmed
  value of the assigned string.
\<close>

theorem context_always_trimmed:
  "noLeadingWhiteSpace (context_cfg (assign_all (ConversationConfig_new K p) as))
   \<and> noTrailingWhiteSpace (context_cfg (assign_all (ConversationConfig_new K p) as))
   \<and> context_cfg (ConversationConfig_new K p) =
       trim (case p_context p of None \<Rightarrow> DEFAULT_CONTEXT K | Some c \<Rightarrow> c)
   \<and> context_cfg (set_context this c) = trim c"
proof -
  have "context_trimmed (ConversationConfig_new K p)"
    by (simp add: context_trimmed_def context_new noLeading_trim noTrailing_trim)
  then have "context_trimmed (assign_all (ConversationConfig_new K p) as)"
    by (rule context_trimmed_assign_all)
  then show ?thesis
    by (simp add: context_trimmed_def context_new context_set_context)
qed

lemma trim_ex: "trim [CHR 0x20, CHR 0x09, CHR ''a'', CHR 0x20, CHR ''b'', CHR 0x0A, CHR 0xA0] = ''a b''"
  by (simp add: trim_def isWhiteSpace_def)

theorem dry_forced_without_credential_witness:
  "apiKey (assign_all (ConversationConfig_new example_constants no_parameters)
      [Assign_apiKey ''sk-1'', Assign_dry False, Assign_apiKey []]) = []
   \<and> dry (assign_all (ConversationConfig_new example_constants no_parameters)
      [Assign_apiKey ''sk-1'', Assign_dry False, Assign_apiKey []]) = Some True
   \<and> p_apiKey no_parameters = None
   \<and> dry (ConversationConfig_new example_constants no_parameters) = Some True"
proof -
  have a: "apiKey (assign_all (ConversationConfig_new example_constants no_parameters)
      [Assign_apiKey ''sk-1'', Assign_dry False, Assign_apiKey []]) = []"
    by (simp add: assign_all_def ConversationConfig_new_def no_parameters_def
        example_constants_def set_apiKey_def set_dry_def set_context_def apiKey_def dry_def
        truthy_string_def Let_def)
  have b: "p_apiKey no_parameters = None"
    by (simp add: no_parameters_def)
  from a b dry_forced_without_credential [of example_constants no_parameters
      "[Assign_apiKey ''sk-1'', Assign_dry False, Assign_apiKey []]"]
  show ?thesis by blast
qed

theorem context_always_trimmed_witness:
  "context_cfg (assign_all
      (ConversationConfig_new example_constants (no_parameters\<lparr>p_context := Some ''  Be brief. ''\<rparr>))
      [Assign_context '' Be kind.  '']) = ''Be kind.''
   \<and> noLeadingWhiteSpace ''Be kind.'' \<and> noTrailingWhiteSpace ''Be kind.''
   \<and> context_cfg (ConversationConfig_new example_constants
        (no_parameters\<lparr>p_context := Some ''  Be brief. ''\<rparr>)) = ''Be brief.''"
proof -
  let ?p = "no_parameters\<lparr>p_context := Some ''  Be brief. ''\<rparr>"
  have t1: "trim '' Be kind.  '' = ''Be kind.''"
    by (simp add: trim_def isWhiteSpace_def)
  have t2: "trim ''  Be brief. '' = ''Be brief.''"
    by (simp add: trim_def isWhiteSpace_def)
  have a: "context_cfg (assign_all (ConversationConfig_new example_constants ?p)
      [Assign_context '' Be kind.  '']) = ''Be kind.''"
    by (simp add: assign_all_def set_context_def context_cfg_def t1)
  have b: "p_context ?p = Some ''  Be brief. ''"
    by (simp add: no_parameters_def)
  from context_always_trimmed [of example_constants ?p "[Assign_context '' Be kind.  '']"
      "ConversationConfig_new example_constants ?p" "'' Be kind.  ''"]
  show ?thesis
    by (simp add: a b t2)
qed

section \<open>Properties of Conversation\<close>

subsection \<open>Facts about the history, \<open>findIndex\<close> and the backward walk\<close>

lemma removeMessage_appended:
  assumes "mid m \<notin> mid ` set (history this)" and "history that = history this @ [m]"
  shows "history (removeMessage that m) = history this"
proof -
  from assms(1) have "\<forall>x \<in> set (history this). mid x \<noteq> mid m"
    by (auto simp: image_iff)
  then have "filter (\<lambda>x. mid x \<noteq> mid m) (history this) = history this"
    by (simp add: filter_id_conv)
  with assms(2) show ?thesis
    by (simp add: removeMessage_def)
qed

lemma foldl_removeMessage:
  "foldl removeMessage this ms =
     this\<lparr>history := filter (\<lambda>x. mid x \<notin> mid ` set ms) (history this)\<rparr>"
proof (induction ms arbitrary: this)
  case Nil
  then show ?case by simp
next
  case (Cons m ms)
  have "filter (\<lambda>x. mid x \<notin> mid ` set ms) (filter (\<lambda>x. mid x \<noteq> mid m) (history this))
      = filter (\<lambda>x. mid x \<notin> mid ` set (m # ms)) (history this)"
    by (auto intro: filter_cong)
  with Cons show ?case
    by (simp add: removeMessage_def)
qed

lemma filter_second_part:
  "mid ` set a \<inter> mid ` set b = {} \<Longrightarrow> filter (\<lambda>x. mid x \<notin> mid ` set b) (a @ b) = a"
  by (auto simp: filter_id_conv filter_empty_conv)

lemma filter_drop_ids:
  assumes "distinct (map mid h)"
  shows "filter (\<lambda>x. mid x \<notin> mid ` set (drop k h)) h = take k h"
proof -
  have "distinct (map mid (take k h) @ map mid (drop k h))"
    using assms by (metis append_take_drop_id map_append)
  then have "mid ` set (take k h) \<inter> mid ` set (drop k h) = {}"
    by simp
  then have "filter (\<lambda>x. mid x \<notin> mid ` set (drop k h)) (take k h @ drop k h) = take k h"
    by (rule filter_second_part)
  then show ?thesis
    by (simp only: append_take_drop_id)
qed

lemma findIndex_None_iff: "findIndex P xs = None \<longleftrightarrow> (\<forall>x \<in> set xs. \<not> P x)"
  by (induction xs) auto

lemma findIndex_first:
  "i < length xs \<Longrightarrow> P (xs ! i) \<Longrightarrow> (\<forall>j<i. \<not> P (xs ! j)) \<Longrightarrow> findIndex P xs = Some i"
proof (induction xs arbitrary: i)
  case Nil
  then show ?case by simp
next
  case (Cons x xs)
  show ?case
  proof (cases i)
    case 0
    with Cons.prems show ?thesis by simp
  next
    case (Suc i')
    with Cons.prems have "\<not> P x" by auto
    moreover from Suc Cons.prems have "findIndex P xs = Some i'"
      by (intro Cons.IH) auto
    ultimately show ?thesis using Suc by simp
  qed
qed

lemma findIndex_distinct:
  assumes "distinct (map mid h)" "i < length h"
  shows "findIndex (\<lambda>m. mid m = mid (h ! i)) h = Some i"
proof (rule findIndex_first)
  show "i < length h" by fact
  show "mid (h ! i) = mid (h ! i)" by simp
  show "\<forall>j<i. mid (h ! j) \<noteq> mid (h ! i)"
  proof (intro allI impI)
    fix j assume "j < i"
    have "(map mid h ! j = map mid h ! i) = (j = i)"
      using assms \<open>j < i\<close> by (intro nth_eq_iff_index_eq) auto
    with \<open>j < i\<close> assms show "mid (h ! j) \<noteq> mid (h ! i)" by simp
  qed
qed

lemma previousUserMessageIndex_None:
  "(\<forall>k\<le>i. role (ms ! k) \<noteq> User) \<Longrightarrow> previousUserMessageIndex ms i = None"
  by (induction i) auto

lemma previousUserMessageIndex_nearest:
  "j \<le> i \<Longrightarrow> role (ms ! j) = User \<Longrightarrow> (\<forall>k. j < k \<and> k \<le> i \<longrightarrow> role (ms ! k) \<noteq> User) \<Longrightarrow>
   previousUserMessageIndex ms i = Some j"
proof (induction i)
  case 0
  then show ?case by simp
next
  case (Suc i)
  show ?case
  proof (cases "j = Suc i")
    case True
    with Suc.prems show ?thesis by simp
  next
    case False
    with Suc.prems have "j \<le> i" by simp
    moreover from False Suc.prems have "role (ms ! Suc i) \<noteq> User" by auto
    moreover from Suc.prems have "\<forall>k. j < k \<and> k \<le> i \<longrightarrow> role (ms ! k) \<noteq> User" by auto
    ultimately show ?thesis using Suc.IH Suc.prems(2) by simp
  qed
qed

subsection \<open>Failed turns\<close>

lemma prompt_unfold:
  "prompt S this text opts newId =
     (case prompt_try S (userMessage text newId) opts
             (this\<lparr>history := history this @ [userMessage text newId]\<rparr>) of
        (Inr assistantMessage, this1) \<Rightarrow> (Inr assistantMessage, this1)
      | (Inl e, this1) \<Rightarrow> prompt_catch S (userMessage text newId) e this1)"
  by (simp add: prompt_def addUserMessage_def)

lemma functionPrompt_unfold:
  "transformFunctionResult S result this = (Inr r, this0) \<Longrightarrow> stringifyResult S r = Inr c \<Longrightarrow>
   functionPrompt S this n result opts newId =
     functionPrompt_guarded S (functionMessage c n newId) opts
       (this0\<lparr>history := history this0 @ [functionMessage c n newId]\<rparr>)"
  by (simp add: functionPrompt_def addFunctionMessage_def)







lemmas example_defs =
  example_services_def example_reply_def userMessage_def functionMessage_def
  prompt_def prompt_try_def prompt_catch_def addUserMessage_def addFunctionMessage_def
  removeMessage_def functionPrompt_def functionPrompt_try_def functionPrompt_catch_def
  functionPrompt_guarded_def pluginService_onUserPromptError_def
  pluginService_onFunctionPromptError_def





subsection \<open>functionPrompt: the transform and the new message\<close>

text \<open>
  C10. When \<open>transformFunctionResult\<close> throws \<open>e\<close> in \<open>functionPrompt\<close>, the call ends
  with \<open>e\<close> in the very state the transform left: no message was appended, so a
  transform that left the history alone leaves it as before the call. The error hook is
  not invoked: the outcome is the same whatever \<open>onFunctionPromptError\<close> is (also one
  that would throw or change the history).
\<close>

theorem transform_failure_propagates:
  "transformFunctionResult S result this = (Inl e, this1) \<longrightarrow>
     functionPrompt S this n result opts newId = (Inl e, this1)
     \<and> functionPrompt (S\<lparr>onFunctionPromptError := h\<rparr>) this n result opts newId = (Inl e, this1)
     \<and> (history this1 = history this \<longrightarrow>
          history (snd (functionPrompt S this n result opts newId)) = history this)"
  by (simp add: functionPrompt_def)

theorem transform_failure_propagates_witness:
  "transformFunctionResult (example_services Transform False) (JsOther True)
      \<lparr>history = example_history\<rparr> = (Inl (Raised 4), \<lparr>history = example_history\<rparr>)
   \<and> functionPrompt (example_services Transform False) \<lparr>history = example_history\<rparr>
        ''getWeather'' (JsOther True) () ''f1'' = (Inl (Raised 4), \<lparr>history = example_history\<rparr>)
   \<and> functionPrompt ((example_services Transform False)
          \<lparr>onFunctionPromptError := (\<lambda>e this. (Inl (Raised 9), this\<lparr>history := []\<rparr>))\<rparr>)
        \<lparr>history = example_history\<rparr> ''getWeather'' (JsOther True) () ''f1''
      = (Inl (Raised 4), \<lparr>history = example_history\<rparr>)"
proof -
  let ?S = "example_services Transform False"
  let ?c = "\<lparr>history = example_history\<rparr>"
  have t: "transformFunctionResult ?S (JsOther True) ?c = (Inl (Raised 4), ?c)"
    by (simp add: example_services_def)
  from transform_failure_propagates [where S = ?S and result = "JsOther True" and this = ?c
      and e = "Raised 4" and ?this1.0 = ?c and n = "''getWeather''" and opts = "()"
      and newId = "''f1''" and h = "\<lambda>e this. (Inl (Raised 9), this\<lparr>history := []\<rparr>)", THEN mp, OF t]
  show ?thesis
    using t by blast
qed

text \<open>
  C8. \<open>functionPrompt\<close> first runs \<open>transformFunctionResult\<close> on \<open>result\<close>. With the
  transformed value \<open>r\<close> it appends a message of role function, with the given name,
  whose content is \<open>r\<close> itself when \<open>r\<close> is a string and \<open>JSON.stringify r\<close> otherwise.
  Only then, on the state that holds this message, it runs the guarded part: the
  function-prompt hook, then the moderation, then the completion (a throw of any of
  them goes to the \<open>catch\<close> block).
\<close>

theorem functionPrompt_adds_function_message:
  "(transformFunctionResult S result this = (Inr r, this1) \<and> stringifyResult S r = Inr c \<longrightarrow>
      functionPrompt S this n result opts newId =
        functionPrompt_guarded S (functionMessage c n newId) opts
          (this1\<lparr>history := history this1 @ [functionMessage c n newId]\<rparr>))
   \<and> stringifyResult S (JsString s) = Inr (Some s)
   \<and> stringifyResult S (JsOther v) = JSON_stringify S v
   \<and> role (functionMessage c n newId) = Function
   \<and> content (functionMessage c n newId) = c
   \<and> name (functionMessage c n newId) = Some n
   \<and> functionPrompt_guarded S fm opts that =
       (case onFunctionPrompt S fm that of
          (Inl e, that1) \<Rightarrow> functionPrompt_catch S fm e that1
        | (Inr u, that1) \<Rightarrow>
            (case moderateMessage S fm that1 of
               (Inl e, that2) \<Rightarrow> functionPrompt_catch S fm e that2
             | (Inr u', that2) \<Rightarrow>
                 (case getAssistantResponse S opts that2 of
                    (Inl e, that3) \<Rightarrow> functionPrompt_catch S fm e that3
                  | (Inr assistantMessage, that3) \<Rightarrow> (Inr assistantMessage, that3))))"
  by (auto simp: functionPrompt_unfold functionMessage_def functionPrompt_guarded_def
      functionPrompt_try_def split: prod.splits sum.splits)

theorem functionPrompt_adds_function_message_witness:
  "functionPrompt negating_services \<lparr>history = []\<rparr> ''isRaining'' (JsOther False) () ''f1''
     = (Inr \<lparr> mid = ''reply-to-f1'', role = Assistant, content = Some ''true'', name = None,
              flags = [] \<rparr>,
        \<lparr>history =
           [\<lparr> mid = ''f1'', role = Function, content = Some ''true'', name = Some ''isRaining'',
               flags = [] \<rparr>,
            \<lparr> mid = ''reply-to-f1'', role = Assistant, content = Some ''true'', name = None,
               flags = [] \<rparr>]\<rparr>)"
proof -
  let ?c = "\<lparr>history = []\<rparr> :: conversation"
  have t: "transformFunctionResult negating_services (JsOther False) ?c = (Inr (JsOther True), ?c)"
    by (simp add: negating_services_def)
  have j: "stringifyResult negating_services (JsOther True) = Inr (Some ''true'')"
    by (simp add: negating_services_def example_services_def)
  note functionPrompt_adds_function_message [where S = negating_services
      and result = "JsOther False" and this = ?c and r = "JsOther True" and ?this1.0 = ?c
      and c = "Some ''true''" and n = "''isRaining''" and opts = "()" and newId = "''f1''"
      and s = "[]" and v = True and fm = "functionMessage None [] []" and that = ?c,
      THEN conjunct1, THEN mp, OF conjI [OF t j]]
  then show ?thesis
    by (simp add: negating_services_def example_defs)
qed

subsection \<open>reprompt\<close>

text \<open>
  C5. Let the ids in the history be distinct, let the target be at index \<open>i\<close>, and let
  \<open>j \<le> i\<close> be the nearest index at or before \<open>i\<close> whose message has role user. Then
  \<open>reprompt\<close> removes the messages from \<open>j\<close> to the end (the history becomes its first
  \<open>j\<close> messages) and calls \<open>prompt\<close> with \<open>t\<close>: \<open>newPrompt\<close> when one is given, and else
  the content of the removed user message (\<open>""\<close> if that content is null). That call
  is a fresh turn: it appends a new user message with content \<open>t\<close> to the shortened
  history and runs the \<open>try\<close> and \<open>catch\<close> blocks of \<open>prompt\<close> on it.
\<close>

theorem reprompt_truncates_and_reissues:
  assumes "distinct (map mid (history this))"
    and "i < length (history this)"
    and "mid (history this ! i) = idOf target"
    and "j \<le> i"
    and "role (history this ! j) = User"
    and "\<forall>k. j < k \<and> k \<le> i \<longrightarrow> role (history this ! k) \<noteq> User"
    and "t = (case newPrompt of
                Some p \<Rightarrow> p
              | None \<Rightarrow> (case content (history this ! j) of Some x \<Rightarrow> x | None \<Rightarrow> []))"
  shows "reprompt S this target newPrompt opts newId =
           prompt S (this\<lparr>history := take j (history this)\<rparr>) t opts newId
         \<and> prompt S (this\<lparr>history := take j (history this)\<rparr>) t opts newId =
           (case prompt_try S (userMessage t newId) opts
                   (this\<lparr>history := take j (history this) @ [userMessage t newId]\<rparr>) of
              (Inr assistantMessage, this1) \<Rightarrow> (Inr assistantMessage, this1)
            | (Inl e, this1) \<Rightarrow> prompt_catch S (userMessage t newId) e this1)"
proof -
  have f: "findIndex (\<lambda>m. mid m = idOf target) (history this) = Some i"
    using findIndex_distinct [OF assms(1) assms(2)] assms(3) by simp
  have p: "previousUserMessageIndex (history this) i = Some j"
    using assms(4-6) by (rule previousUserMessageIndex_nearest)
  have r: "foldl removeMessage this (drop j (history this)) = this\<lparr>history := take j (history this)\<rparr>"
    by (simp add: foldl_removeMessage filter_drop_ids [OF assms(1)])
  have "reprompt S this target newPrompt opts newId =
           prompt S (this\<lparr>history := take j (history this)\<rparr>) t opts newId"
    by (cases newPrompt) (simp_all add: reprompt_def getMessages_def f p r Let_def assms(7))
  then show ?thesis
    by (simp add: prompt_unfold)
qed

text \<open>
  C6. \<open>reprompt\<close> throws the not-found error (an \<open>Error\<close> whose message names the id)
  when no message of the history has the given id, and the no-previous-user-message
  error when the target (the first message with that id, at index \<open>i\<close>) has no message
  of role user at or before it. In both cases the state it leaves is the state it was
  given: nothing is removed.
\<close>

theorem reprompt_not_found:
  "(idOf target \<notin> mid ` set (history this) \<longrightarrow>
      reprompt S this target newPrompt opts newId =
        (Inl (Error (notFoundMessage (idOf target))), this))
   \<and> (i < length (history this) \<and> mid (history this ! i) = idOf target
        \<and> (\<forall>j<i. mid (history this ! j) \<noteq> idOf target)
        \<and> (\<forall>k\<le>i. role (history this ! k) \<noteq> User) \<longrightarrow>
      reprompt S this target newPrompt opts newId =
        (Inl (Error (noPreviousUserMessage (idOf target))), this))"
proof (intro conjI impI)
  assume "idOf target \<notin> mid ` set (history this)"
  then have "findIndex (\<lambda>m. mid m = idOf target) (history this) = None"
    by (auto simp: findIndex_None_iff image_iff)
  then show "reprompt S this target newPrompt opts newId =
        (Inl (Error (notFoundMessage (idOf target))), this)"
    by (simp add: reprompt_def getMessages_def)
next
  assume a: "i < length (history this) \<and> mid (history this ! i) = idOf target
        \<and> (\<forall>j<i. mid (history this ! j) \<noteq> idOf target)
        \<and> (\<forall>k\<le>i. role (history this ! k) \<noteq> User)"
  then have "findIndex (\<lambda>m. mid m = idOf target) (history this) = Some i"
    by (intro findIndex_first) auto
  moreover from a have "previousUserMessageIndex (history this) i = None"
    by (intro previousUserMessageIndex_None) auto
  ultimately show "reprompt S this target newPrompt opts newId =
        (Inl (Error (noPreviousUserMessage (idOf target))), this)"
    by (simp add: reprompt_def getMessages_def)
qed

theorem reprompt_truncates_and_reissues_witness:
  "reprompt (example_services NoStage False) \<lparr>history = example_history\<rparr> (ById ''asst2'')
      None () ''user3''
     = prompt (example_services NoStage False) \<lparr>history = take 3 example_history\<rparr>
         ''How are you?'' () ''user3''
   \<and> reprompt (example_services NoStage False) \<lparr>history = example_history\<rparr> (ById ''asst1'')
      (Some ''new text'') () ''user3''
     = prompt (example_services NoStage False) \<lparr>history = take 1 example_history\<rparr>
         ''new text'' () ''user3''"
proof -
  let ?S = "example_services NoStage False"
  let ?c = "\<lparr>history = example_history\<rparr>"
  have d: "distinct (map mid (history ?c))"
    by (simp add: example_history_def)
  have "reprompt ?S ?c (ById ''asst2'') None () ''user3'' =
      prompt ?S (?c\<lparr>history := take 3 (history ?c)\<rparr>) ''How are you?'' () ''user3''"
  proof (rule reprompt_truncates_and_reissues [where i = 4, THEN conjunct1])
    show "distinct (map mid (history ?c))" by (rule d)
    show "4 < length (history ?c)" by (simp add: example_history_def)
    show "mid (history ?c ! 4) = idOf (ById ''asst2'')" by (simp add: example_history_def)
    show "(3::nat) \<le> 4" by simp
    show "role (history ?c ! 3) = User" by (simp add: example_history_def)
    show "\<forall>k. 3 < k \<and> k \<le> 4 \<longrightarrow> role (history ?c ! k) \<noteq> User"
    proof (intro allI impI)
      fix k :: nat assume "3 < k \<and> k \<le> 4"
      then have "k = 4" by arith
      then show "role (history ?c ! k) \<noteq> User" by (simp add: example_history_def)
    qed
    show "''How are you?'' =
        (case None of Some p \<Rightarrow> p
         | None \<Rightarrow> (case content (history ?c ! 3) of Some x \<Rightarrow> x | None \<Rightarrow> []))"
      by (simp add: example_history_def)
  qed
  then have a: "reprompt ?S ?c (ById ''asst2'') None () ''user3'' =
      prompt ?S \<lparr>history = take 3 example_history\<rparr> ''How are you?'' () ''user3''"
    by (simp add: example_history_def)
  have "reprompt ?S ?c (ById ''asst1'') (Some ''new text'') () ''user3'' =
      prompt ?S (?c\<lparr>history := take 1 (history ?c)\<rparr>) ''new text'' () ''user3''"
  proof (rule reprompt_truncates_and_reissues [where i = 2, THEN conjunct1])
    show "distinct (map mid (history ?c))" by (rule d)
    show "2 < length (history ?c)" by (simp add: example_history_def)
    show "mid (history ?c ! 2) = idOf (ById ''asst1'')" by (simp add: example_history_def)
    show "(1::nat) \<le> 2" by simp
    show "role (history ?c ! 1) = User" by (simp add: example_history_def)
    show "\<forall>k. 1 < k \<and> k \<le> 2 \<longrightarrow> role (history ?c ! k) \<noteq> User"
    proof (intro allI impI)
      fix k :: nat assume "1 < k \<and> k \<le> 2"
      then have "k = 2" by arith
      then show "role (history ?c ! k) \<noteq> User" by (simp add: example_history_def)
    qed
    show "''new text'' =
        (case Some ''new text'' of Some p \<Rightarrow> p
         | None \<Rightarrow> (case content (history ?c ! 1) of Some x \<Rightarrow> x | None \<Rightarrow> []))"
      by simp
  qed
  then have b: "reprompt ?S ?c (ById ''asst1'') (Some ''new text'') () ''user3'' =
      prompt ?S \<lparr>history = take 1 example_history\<rparr> ''new text'' () ''user3''"
    by (simp add: example_history_def)
  from a b show ?thesis by (rule conjI)
qed

lemma reprompt_example_regenerate:
  "reprompt (example_services NoStage False) \<lparr>history = example_history\<rparr> (ById ''asst2'')
      None () ''user3''
     = (Inr \<lparr> mid = ''reply-to-user3'', role = Assistant, content = Some ''How are you?'',
              name = None, flags = [] \<rparr>,
        \<lparr>history = take 3 example_history @
           [\<lparr> mid = ''user3'', role = User, content = Some ''How are you?'', name = None,
               flags = [] \<rparr>,
            \<lparr> mid = ''reply-to-user3'', role = Assistant, content = Some ''How are you?'',
               name = None, flags = [] \<rparr>]\<rparr>)"
  by (simp add: reprompt_def getMessages_def Let_def example_history_def example_defs
      truthy_string_def)

lemma reprompt_example_edit:
  "reprompt (example_services NoStage False) \<lparr>history = example_history\<rparr> (ById ''asst1'')
      (Some ''new text'') () ''user3''
     = (Inr \<lparr> mid = ''reply-to-user3'', role = Assistant, content = Some ''new text'',
              name = None, flags = [] \<rparr>,
        \<lparr>history = take 1 example_history @
           [\<lparr> mid = ''user3'', role = User, content = Some ''new text'', name = None,
               flags = [] \<rparr>,
            \<lparr> mid = ''reply-to-user3'', role = Assistant, content = Some ''new text'',
               name = None, flags = [] \<rparr>]\<rparr>)"
  by (simp add: reprompt_def getMessages_def Let_def example_history_def example_defs
      truthy_string_def)

theorem reprompt_not_found_witness:
  "reprompt (example_services NoStage False) \<lparr>history = example_history\<rparr> (ById ''nope'')
      None () ''user3''
     = (Inl (Error (notFoundMessage ''nope'')), \<lparr>history = example_history\<rparr>)
   \<and> reprompt (example_services NoStage False) \<lparr>history = example_history\<rparr>
      (ByMessage (example_history ! 0)) (Some ''new text'') () ''user3''
     = (Inl (Error (noPreviousUserMessage ''sys'')), \<lparr>history = example_history\<rparr>)"
proof -
  let ?S = "example_services NoStage False"
  let ?c = "\<lparr>history = example_history\<rparr>"
  have n: "idOf (ById ''nope'') \<notin> mid ` set (history ?c)"
    by (simp add: example_history_def)
  have s: "0 < length (history ?c) \<and> mid (history ?c ! 0) = idOf (ByMessage (example_history ! 0))
        \<and> (\<forall>j<0. mid (history ?c ! j) \<noteq> idOf (ByMessage (example_history ! 0)))
        \<and> (\<forall>k\<le>0. role (history ?c ! k) \<noteq> User)"
    by (simp add: example_history_def)
  have "reprompt ?S ?c (ById ''nope'') None () ''user3'' =
      (Inl (Error (notFoundMessage (idOf (ById ''nope'')))), ?c)"
    by (rule reprompt_not_found [THEN conjunct1, THEN mp, OF n])
  moreover have "reprompt ?S ?c (ByMessage (example_history ! 0)) (Some ''new text'') () ''user3'' =
      (Inl (Error (noPreviousUserMessage (idOf (ByMessage (example_history ! 0))))), ?c)"
    by (rule reprompt_not_found [THEN conjunct2, THEN mp, OF s])
  moreover have "idOf (ByMessage (example_history ! 0)) = ''sys''"
    by (simp add: example_history_def)
  ultimately show ?thesis by simp
qed

end
